theory Spec2Isabelle
  imports Main "HOL-Library.Char_ord" "HOL-Library.List_Lexorder"
begin

section \<open>The chess backend: session, snapshot parser and move inference\<close>

text \<open>
  A shallow embedding of \<^verbatim>\<open>src/backendrunner.py\<close> (class \<^verbatim>\<open>ChessBrain\<close>).
  The names of the source are kept; Python's leading underscore of the private methods
  (\<^verbatim>\<open>_parse_positions\<close>, \<^verbatim>\<open>_is_uci_move\<close>, ...) is dropped, since an Isabelle
  name starts with a letter.

  A Python \<^verbatim>\<open>str\<close> is modelled as a \<^typ>\<open>string\<close>: a list of characters, each a
  code point below 256. On these code points the string methods used by the source
  (\<^verbatim>\<open>strip\<close>, \<^verbatim>\<open>lower\<close>, \<^verbatim>\<open>split\<close>, \<^verbatim>\<open>startswith\<close>) keep every character
  below 256, so they are functions on \<^typ>\<open>string\<close>.
\<close>

subsection \<open>Python string methods\<close>

text \<open>\<^verbatim>\<open>str.isspace\<close> on one character: the white space that \<^verbatim>\<open>strip()\<close> and
  \<^verbatim>\<open>split()\<close> remove (tab to carriage return, the four separators 28 to 31, the
  space, next-line 133 and the no-break space 160).\<close>

definition isspace :: "char \<Rightarrow> bool" where
  "isspace c =
     (let n = (of_char c :: nat)
      in (9 \<le> n \<and> n \<le> 13) \<or> (28 \<le> n \<and> n \<le> 32) \<or> n = 133 \<or> n = 160)"

text \<open>\<^verbatim>\<open>str.lower\<close> on one character: the capital letters A to Z, and the capital
  letters 192 to 222 of the upper half (the multiplication sign 215 apart), move up
  by 32.\<close>

definition lower_char :: "char \<Rightarrow> char" where
  "lower_char c =
     (let n = (of_char c :: nat)
      in if (65 \<le> n \<and> n \<le> 90) \<or> (192 \<le> n \<and> n \<le> 222 \<and> n \<noteq> 215)
         then char_of (n + 32) else c)"

definition lower :: "string \<Rightarrow> string" where
  "lower s = map lower_char s"

definition strip :: "string \<Rightarrow> string" where
  "strip s = rev (dropWhile isspace (rev (dropWhile isspace s)))"

text \<open>\<^verbatim>\<open>s.split(sep)\<close> for a separator of one character: every occurrence of the
  separator cuts, empty pieces are kept, and the result is never the empty list.\<close>

fun split_on :: "char \<Rightarrow> string \<Rightarrow> string list" where
  "split_on sep [] = [[]]"
| "split_on sep (c # cs) =
     (if c = sep then [] # split_on sep cs
      else (case split_on sep cs of
              [] \<Rightarrow> [[c]]
            | p # ps \<Rightarrow> (c # p) # ps))"

text \<open>\<^verbatim>\<open>s.split()\<close> without a separator: the maximal runs of characters that are not
  white space. The second argument is the run being read, reversed.\<close>

fun split_ws_from :: "string \<Rightarrow> string \<Rightarrow> string list" where
  "split_ws_from [] w = (if w = [] then [] else [rev w])"
| "split_ws_from (c # cs) w =
     (if isspace c
      then (if w = [] then split_ws_from cs [] else rev w # split_ws_from cs [])
      else split_ws_from cs (c # w))"

definition split_ws :: "string \<Rightarrow> string list" where
  "split_ws s = split_ws_from s []"

definition startswith :: "string \<Rightarrow> string \<Rightarrow> bool" where
  "startswith s p = (take (length p) s = p)"

subsection \<open>Exceptions\<close>

text \<open>The two exceptions the code can meet: an index out of range, and
  \<^verbatim>\<open>chess.Move.from_uci\<close> refusing its argument.\<close>

datatype error = IndexError | InvalidMoveError

text \<open>\<^verbatim>\<open>xs[i]\<close> for an index that is not negative.\<close>

definition index :: "'a list \<Rightarrow> nat \<Rightarrow> error + 'a" where
  "index xs i = (if i < length xs then Inr (xs ! i) else Inl IndexError)"

subsection \<open>Occupancy snapshots and their parser\<close>

text \<open>The dictionary \<^verbatim>\<open>{"white": [...], "black": [...]}\<close>. Two snapshots are equal in
  Python when both lists are.\<close>

record snapshot =
  white :: "string list"
  black :: "string list"

definition valid_squares :: "string set" where
  "valid_squares = set (concat (map (\<lambda>file. map (\<lambda>rank. [file, rank]) ''12345678'') ''abcdefgh''))"

text \<open>\<^verbatim>\<open>[sq.strip() for sq in squares_str.split(",") if sq.strip()]\<close>\<close>

definition squares_of :: "string \<Rightarrow> string list" where
  "squares_of squares_str =
     map strip (filter (\<lambda>sq. strip sq \<noteq> []) (split_on CHR '','' squares_str))"

text \<open>The two lines of a recognised token:
  \<^verbatim>\<open>squares_str = part.split(":")[1]\<close>, then the list comprehension.\<close>

definition part_squares :: "string \<Rightarrow> error + string list" where
  "part_squares part =
     (case index (split_on CHR '':'' part) 1 of
        Inl e \<Rightarrow> Inl e
      | Inr squares_str \<Rightarrow> Inr (squares_of squares_str))"

text \<open>The loop \<^verbatim>\<open>for part in parts\<close>, on the pair
  \<^verbatim>\<open>(white_squares, black_squares)\<close>: a recognised token assigns its colour's list.\<close>

fun parse_parts :: "string list \<Rightarrow> string list \<times> string list \<Rightarrow> error + (string list \<times> string list)" where
  "parse_parts [] (white_squares, black_squares) = Inr (white_squares, black_squares)"
| "parse_parts (part # parts) (white_squares, black_squares) =
     (let part = strip part
      in if startswith part ''white:'' then
           (case part_squares part of
              Inl e \<Rightarrow> Inl e
            | Inr sqs \<Rightarrow> parse_parts parts (sqs, black_squares))
         else if startswith part ''black:'' then
           (case part_squares part of
              Inl e \<Rightarrow> Inl e
            | Inr sqs \<Rightarrow> parse_parts parts (white_squares, sqs))
         else parse_parts parts (white_squares, black_squares))"

text \<open>The tokens: \<^verbatim>\<open>txt.split(';')\<close> when the text has a semicolon, \<^verbatim>\<open>txt.split()\<close>
  otherwise, of the text stripped and in lower case.\<close>

definition token_parts :: "string \<Rightarrow> string list" where
  "token_parts txt =
     (let txt = lower (strip txt)
      in if CHR '';'' \<in> set txt then split_on CHR '';'' txt else split_ws txt)"

text \<open>\<^verbatim>\<open>_parse_positions\<close>: \<open>None\<close> is the \<^verbatim>\<open>except: return None\<close> branch.\<close>

definition parse_positions :: "string \<Rightarrow> snapshot option" where
  "parse_positions txt =
     (case parse_parts (token_parts txt) ([], []) of
        Inl e \<Rightarrow> None
      | Inr (white_squares, black_squares) \<Rightarrow>
          Some \<lparr>white = sort (filter (\<lambda>sq. sq \<in> valid_squares) white_squares),
                black = sort (filter (\<lambda>sq. sq \<in> valid_squares) black_squares)\<rparr>)"

subsection \<open>The external collaborators\<close>

text \<open>
  The rules library (python-chess) and the engine (Stockfish) are not code of this
  repository: they are a parameter of every operation. \<open>'b\<close> is the type of
  \<^verbatim>\<open>chess.Board\<close> values and \<open>'m\<close> the type of \<^verbatim>\<open>chess.Move\<close> values.
  \<^item> \<open>from_uci\<close> is \<^verbatim>\<open>chess.Move.from_uci\<close>; \<open>None\<close> when it raises;
  \<^item> \<open>legal_moves b\<close> is \<^verbatim>\<open>board.legal_moves\<close>, \<open>push\<close> is \<^verbatim>\<open>board.push\<close>,
    \<open>is_checkmate\<close> is \<^verbatim>\<open>board.is_checkmate\<close>;
  \<^item> \<open>piece_map b\<close> is \<^verbatim>\<open>board.piece_map()\<close>, a dictionary from the squares
    0 to 63 to pieces, of which the code reads the colour only;
  \<^item> \<open>get_best_move_time b\<close> is the answer of
    \<^verbatim>\<open>ai.set_fen_position(board.fen()); ai.get_best_move_time(2000)\<close>.
\<close>

datatype color = WHITE | BLACK

record ('b, 'm) chess_lib =
  from_uci :: "string \<Rightarrow> 'm option"
  legal_moves :: "'b \<Rightarrow> 'm set"
  push :: "'b \<Rightarrow> 'm \<Rightarrow> 'b"
  is_checkmate :: "'b \<Rightarrow> bool"
  piece_map :: "'b \<Rightarrow> nat \<rightharpoonup> color"
  get_best_move_time :: "'b \<Rightarrow> string option"

text \<open>\<^verbatim>\<open>chess.square_name\<close>: the file letter of \<open>square mod 8\<close>, then the rank digit
  of \<open>square div 8\<close>.\<close>

definition square_name :: "nat \<Rightarrow> string" where
  "square_name square = [''abcdefgh'' ! (square mod 8), ''12345678'' ! (square div 8)]"

subsection \<open>The session\<close>

text \<open>The fields of \<^verbatim>\<open>ChessBrain\<close> (the engine handle \<^verbatim>\<open>ai\<close> is in the parameter).\<close>

record 'b chess_brain =
  board :: 'b
  app_color :: "color option"
  game_active :: bool
  last_position_snapshot :: "snapshot option"
  first_move_received :: bool

text \<open>\<^verbatim>\<open>_get_piece_snapshot\<close>. The order in which the dictionary is read does not
  matter, since both lists are sorted before they are returned.\<close>

definition get_piece_snapshot :: "('b, 'm) chess_lib \<Rightarrow> 'b chess_brain \<Rightarrow> snapshot" where
  "get_piece_snapshot L s =
     (let w = map square_name (filter (\<lambda>square. piece_map L (board s) square = Some WHITE) [0..<64]);
          b = map square_name (filter (\<lambda>square. piece_map L (board s) square = Some BLACK) [0..<64])
      in \<lparr>white = sort w, black = sort b\<rparr>)"

text \<open>\<^verbatim>\<open>_is_uci_move\<close>\<close>

definition is_uci_move :: "string \<Rightarrow> bool" where
  "is_uci_move text =
     (let text = lower (strip text)
      in if length text = 4 \<and> text ! 0 \<in> set ''abcdefgh'' \<and> text ! 1 \<in> set ''12345678''
            \<and> text ! 2 \<in> set ''abcdefgh'' \<and> text ! 3 \<in> set ''12345678'' then True
         else if length text = 5 \<and> text ! 0 \<in> set ''abcdefgh'' \<and> text ! 1 \<in> set ''12345678''
            \<and> text ! 2 \<in> set ''abcdefgh'' \<and> text ! 3 \<in> set ''12345678''
            \<and> text ! 4 \<in> set ''qnrb'' then True
         else False)"

text \<open>Python's truth value of \<^verbatim>\<open>None\<close> or a string.\<close>

definition truthy :: "string option \<Rightarrow> bool" where
  "truthy v = (case v of None \<Rightarrow> False | Some t \<Rightarrow> t \<noteq> [])"

text \<open>\<^verbatim>\<open>_get_best_move\<close>. \<open>Inl\<close> is the exception of \<^verbatim>\<open>chess.Move.from_uci\<close>, raised
  before anything is changed.\<close>

definition get_best_move ::
  "('b, 'm) chess_lib \<Rightarrow> 'b chess_brain \<Rightarrow> error + (string option \<times> 'b chess_brain)" where
  "get_best_move L s =
     (let best_move = get_best_move_time L (board s)
      in if truthy best_move then
           (case from_uci L (case best_move of Some t \<Rightarrow> t | None \<Rightarrow> []) of
              None \<Rightarrow> Inl InvalidMoveError
            | Some move \<Rightarrow>
                if move \<in> legal_moves L (board s) then
                  (let s = s\<lparr>board := push L (board s) move\<rparr>;
                       s = (if is_checkmate L (board s) then s\<lparr>game_active := False\<rparr> else s)
                   in Inr (best_move, s))
                else Inr (None, s))
         else Inr (None, s))"

text \<open>\<^verbatim>\<open>_is_drastic_change\<close>\<close>

definition is_drastic_change :: "snapshot \<Rightarrow> snapshot option \<Rightarrow> bool" where
  "is_drastic_change new_pos current_pos =
     (case current_pos of
        None \<Rightarrow> False
      | Some current_pos \<Rightarrow>
          (let current_white = set (white current_pos);
               current_black = set (black current_pos);
               new_white = set (white new_pos);
               new_black = set (black new_pos);
               white_removed = current_white - new_white;
               white_added = new_white - current_white;
               black_removed = current_black - new_black;
               black_added = new_black - current_black;
               total_removed = card white_removed + card black_removed;
               total_added = card white_added + card black_added
           in if total_removed = 1 \<and> total_added = 2 then True
              else
                (let current_count = int (length (white current_pos)) + int (length (black current_pos));
                     new_count = int (length (white new_pos)) + int (length (black new_pos));
                     diff = \<bar>current_count - new_count\<bar>
                 in diff > 2)))"

text \<open>\<^verbatim>\<open>_deduce_move_from_snapshot\<close>. \<^verbatim>\<open>list(s)[0]\<close> is read only where \<^verbatim>\<open>len(s) == 1\<close>
  has been tested: it is the element of the set.\<close>

definition deduce_move_from_snapshot :: "snapshot \<Rightarrow> snapshot \<Rightarrow> string option" where
  "deduce_move_from_snapshot new_pos current_pos =
     (let current_white = set (white current_pos);
          current_black = set (black current_pos);
          new_white = set (white new_pos);
          new_black = set (black new_pos);
          white_removed = current_white - new_white;
          white_added = new_white - current_white;
          black_removed = current_black - new_black;
          black_added = new_black - current_black
      in if white_removed = {''e1'', ''h1''} \<and> white_added = {''g1'', ''f1''} then Some ''e1g1''
         else if white_removed = {''e1'', ''a1''} \<and> white_added = {''c1'', ''d1''} then Some ''e1c1''
         else if black_removed = {''e8'', ''h8''} \<and> black_added = {''g8'', ''f8''} then Some ''e8g8''
         else if black_removed = {''e8'', ''a8''} \<and> black_added = {''c8'', ''d8''} then Some ''e8c8''
         else if card white_removed = 1 \<and> card white_added = 1 \<and> black_removed = {} \<and> black_added = {}
           then Some (the_elem white_removed @ the_elem white_added)
         else if card black_removed = 1 \<and> card black_added = 1 \<and> white_removed = {} \<and> white_added = {}
           then Some (the_elem black_removed @ the_elem black_added)
         else if card white_removed = 1 \<and> card white_added = 1 \<and> card black_removed = 1 \<and> black_added = {}
                 \<and> the_elem white_added \<in> black_removed
           then Some (the_elem white_removed @ the_elem white_added)
         else if card black_removed = 1 \<and> card black_added = 1 \<and> card white_removed = 1 \<and> white_added = {}
                 \<and> the_elem black_added \<in> white_removed
           then Some (the_elem black_removed @ the_elem black_added)
         else None)"

text \<open>
  \<^verbatim>\<open>process_move\<close>. The result is the text returned (\<open>Inr\<close>) or the exception that
  leaves the method (\<open>Inl\<close>), with the session as the call leaves it. The calls of
  \<^verbatim>\<open>print\<close> and the thread that sleeps and prints change no field and are left out.
  In the first branch the \<^verbatim>\<open>try\<close> block holds the call of \<^verbatim>\<open>_get_best_move\<close>, so its
  exception is caught there; in the second it is outside the \<^verbatim>\<open>try\<close> block.
\<close>

definition process_move ::
  "('b, 'm) chess_lib \<Rightarrow> 'b chess_brain \<Rightarrow> string \<Rightarrow> (error + string) \<times> 'b chess_brain" where
  "process_move L s incoming =
     (if \<not> game_active s then (Inr ''Game Over'', s)
      else if is_uci_move incoming then
        (case from_uci L (lower (strip incoming)) of
           None \<Rightarrow> (Inr ''Invalid'', s)
         | Some move \<Rightarrow>
             if move \<in> legal_moves L (board s) then
               (let s = s\<lparr>board := push L (board s) move\<rparr>;
                    s = s\<lparr>last_position_snapshot := Some (get_piece_snapshot L s)\<rparr>
                in if is_checkmate L (board s) then (Inr '''', s\<lparr>game_active := False\<rparr>)
                   else
                     (case get_best_move L s of
                        Inl e \<Rightarrow> (Inr ''Invalid'', s)
                      | Inr (ai_move, s) \<Rightarrow>
                          (Inr (case ai_move of None \<Rightarrow> '''' | Some t \<Rightarrow> if t \<noteq> [] then t else ''''), s)))
             else (Inr ''Invalid'', s))
      else
        (case parse_positions incoming of
           None \<Rightarrow> (Inr '''', s)
         | Some positions \<Rightarrow>
             (let current_board_snapshot = get_piece_snapshot L s
              in if positions = current_board_snapshot then (Inr '''', s)
                 else if is_drastic_change positions (Some current_board_snapshot) then (Inr '''', s)
                 else
                   (let move = deduce_move_from_snapshot positions current_board_snapshot
                    in if \<not> truthy move then (Inr '''', s)
                       else
                         (case from_uci L (case move of Some t \<Rightarrow> t | None \<Rightarrow> []) of
                            None \<Rightarrow> (Inr '''', s)
                          | Some move_obj \<Rightarrow>
                              if move_obj \<in> legal_moves L (board s) then
                                (let s = s\<lparr>board := push L (board s) move_obj\<rparr>;
                                     s = s\<lparr>last_position_snapshot := Some (get_piece_snapshot L s)\<rparr>
                                 in if is_checkmate L (board s) then (Inr '''', s\<lparr>game_active := False\<rparr>)
                                    else
                                      (case get_best_move L s of
                                         Inl e \<Rightarrow> (Inl e, s)
                                       | Inr (ai_move, s) \<Rightarrow>
                                           (Inr (case ai_move of None \<Rightarrow> ''''
                                                 | Some t \<Rightarrow> if t \<noteq> [] then t else ''''), s)))
                              else (Inr '''', s))))))"

text \<open>The successive requests of the \<^verbatim>\<open>/move\<close> route: each strips the body and calls
  \<^verbatim>\<open>brain.process_move\<close> on the one session; the replies are collected in order.\<close>

fun move_requests ::
  "('b, 'm) chess_lib \<Rightarrow> 'b chess_brain \<Rightarrow> string list \<Rightarrow> (error + string) list \<times> 'b chess_brain" where
  "move_requests L s [] = ([], s)"
| "move_requests L s (msg # msgs) =
     (case process_move L s (strip msg) of
        (result, s) \<Rightarrow> (case move_requests L s msgs of (results, s) \<Rightarrow> (result # results, s)))"

subsection \<open>An instance of the collaborators: a queen ending\<close>

text \<open>
  A fragment of chess for the concrete runs below, with the answers the library and the
  engine give in it. The five positions:
  \<^item> \<open>Before\<close>: white king f7, white queen g5, black king h8, white to move;
  \<^item> \<open>Mate\<close>: after \<^verbatim>\<open>g5g7\<close>, the black king is checkmated;
  \<^item> \<open>Stale\<close>: after \<^verbatim>\<open>g5g6\<close>, black is not in check and has no move (stalemate);
  \<^item> \<open>Quiet\<close>: after \<^verbatim>\<open>g5g4\<close>, black to move, with the one legal move \<^verbatim>\<open>h8h7\<close>;
  \<^item> \<open>Reply\<close>: after \<^verbatim>\<open>g5g4 h8h7\<close>, white to move.
  A move is its coordinate text: \<open>ending_from_uci\<close> accepts the null move and the
  texts of two distinct squares with an optional piece letter, as the library does
  (drops, which no text below is, are left out). The moves of \<open>Before\<close> other than the
  three named lead out of the fragment; \<open>ending_push\<close> is not read there.
\<close>

datatype ending = Before | Mate | Stale | Quiet | Reply

definition ending_from_uci :: "string \<Rightarrow> string option" where
  "ending_from_uci uci =
     (if uci = ''0000'' then Some uci
      else if (length uci = 4 \<or> (length uci = 5 \<and> uci ! 4 \<in> set ''pnbrqk''))
              \<and> take 2 uci \<in> valid_squares \<and> take 2 (drop 2 uci) \<in> valid_squares
              \<and> take 2 uci \<noteq> take 2 (drop 2 uci)
      then Some uci else None)"

fun ending_legal_moves :: "ending \<Rightarrow> string set" where
  "ending_legal_moves Before =
     set [''f7e6'', ''f7e7'', ''f7e8'', ''f7f6'', ''f7f8'', ''f7g6'', ''g5a5'', ''g5b5'',
          ''g5c1'', ''g5c5'', ''g5d2'', ''g5d5'', ''g5d8'', ''g5e3'', ''g5e5'', ''g5e7'',
          ''g5f4'', ''g5f5'', ''g5f6'', ''g5g1'', ''g5g2'', ''g5g3'', ''g5g4'', ''g5g6'',
          ''g5g7'', ''g5g8'', ''g5h4'', ''g5h5'', ''g5h6'']"
| "ending_legal_moves Mate = {}"
| "ending_legal_moves Stale = {}"
| "ending_legal_moves Quiet = set [''h8h7'']"
| "ending_legal_moves Reply =
     set [''f7e6'', ''f7e7'', ''f7e8'', ''f7f6'', ''f7f8'', ''g4a4'', ''g4b4'', ''g4c4'',
          ''g4c8'', ''g4d1'', ''g4d4'', ''g4d7'', ''g4e2'', ''g4e4'', ''g4e6'', ''g4f3'',
          ''g4f4'', ''g4f5'', ''g4g1'', ''g4g2'', ''g4g3'', ''g4g5'', ''g4g6'', ''g4g7'',
          ''g4g8'', ''g4h3'', ''g4h4'', ''g4h5'']"

definition ending_push :: "ending \<Rightarrow> string \<Rightarrow> ending" where
  "ending_push b move =
     (if b = Before \<and> move = ''g5g7'' then Mate
      else if b = Before \<and> move = ''g5g6'' then Stale
      else if b = Before \<and> move = ''g5g4'' then Quiet
      else if b = Quiet \<and> move = ''h8h7'' then Reply
      else b)"

text \<open>The squares: f7 is 53, g5 is 38, g7 is 54, g6 is 46, g4 is 30, h8 is 63, h7 is 55.\<close>

fun ending_piece_map :: "ending \<Rightarrow> nat \<rightharpoonup> color" where
  "ending_piece_map Before = [53 \<mapsto> WHITE, 38 \<mapsto> WHITE, 63 \<mapsto> BLACK]"
| "ending_piece_map Mate = [53 \<mapsto> WHITE, 54 \<mapsto> WHITE, 63 \<mapsto> BLACK]"
| "ending_piece_map Stale = [53 \<mapsto> WHITE, 46 \<mapsto> WHITE, 63 \<mapsto> BLACK]"
| "ending_piece_map Quiet = [53 \<mapsto> WHITE, 30 \<mapsto> WHITE, 63 \<mapsto> BLACK]"
| "ending_piece_map Reply = [53 \<mapsto> WHITE, 30 \<mapsto> WHITE, 55 \<mapsto> BLACK]"

text \<open>The engine has no move where the side to move has none, and the one legal move
  in \<open>Quiet\<close>; in \<open>Before\<close> and \<open>Reply\<close> it gives a mate in one.\<close>

fun ending_best_move :: "ending \<Rightarrow> string option" where
  "ending_best_move Before = Some ''g5g7''"
| "ending_best_move Mate = None"
| "ending_best_move Stale = None"
| "ending_best_move Quiet = Some ''h8h7''"
| "ending_best_move Reply = Some ''g4g7''"

definition ending_lib :: "(ending, string) chess_lib" where
  "ending_lib =
     \<lparr>from_uci = ending_from_uci,
      legal_moves = ending_legal_moves,
      push = ending_push,
      is_checkmate = (\<lambda>b. b = Mate),
      piece_map = ending_piece_map,
      get_best_move_time = ending_best_move\<rparr>"

text \<open>The session in the position \<open>Before\<close>, the application playing black. The stored
  snapshot is the one taken after white's last move, when the black king was on h7.\<close>

definition ending_brain :: "ending chess_brain" where
  "ending_brain =
     \<lparr>board = Before, app_color = Some BLACK, game_active = True,
      last_position_snapshot =
        Some \<lparr>white = [''f7'', ''g5''], black = [''h7'']\<rparr>,
      first_move_received = False\<rparr>"

section \<open>Properties\<close>

subsection \<open>The parser returns\<close>

lemma split_on_not_Nil: "split_on sep s \<noteq> []"
  by (induction s) (auto split: list.splits)

lemma split_on_length: "sep \<in> set s \<Longrightarrow> 1 < length (split_on sep s)"
proof (induction s)
  case Nil
  then show ?case by simp
next
  case (Cons c cs)
  show ?case
  proof (cases "c = sep")
    case True
    then show ?thesis using split_on_not_Nil [of sep cs] by (cases "split_on sep cs") auto
  next
    case False
    with Cons have "1 < length (split_on sep cs)" by simp
    with False show ?thesis by (auto split: list.splits)
  qed
qed

lemma startswith_mem: "startswith part (c # p) \<Longrightarrow> x \<in> set (c # p) \<Longrightarrow> x \<in> set part"
  unfolding startswith_def by (metis in_set_takeD)

text \<open>A token that starts with \<^verbatim>\<open>white:\<close> or \<^verbatim>\<open>black:\<close> has a colon, so
  \<^verbatim>\<open>part.split(":")\<close> has a second element and the index 1 is in range.\<close>

lemma part_squares_white:
  "startswith part ''white:'' \<Longrightarrow> part_squares part = Inr (squares_of (split_on CHR '':'' part ! 1))"
proof -
  assume "startswith part ''white:''"
  then have "CHR '':'' \<in> set part" by (rule startswith_mem) simp
  then have "1 < length (split_on CHR '':'' part)" by (rule split_on_length)
  then show ?thesis by (simp add: part_squares_def index_def)
qed

lemma part_squares_black:
  "startswith part ''black:'' \<Longrightarrow> part_squares part = Inr (squares_of (split_on CHR '':'' part ! 1))"
proof -
  assume "startswith part ''black:''"
  then have "CHR '':'' \<in> set part" by (rule startswith_mem) simp
  then have "1 < length (split_on CHR '':'' part)" by (rule split_on_length)
  then show ?thesis by (simp add: part_squares_def index_def)
qed

lemma parse_parts_returns: "\<exists>w b. parse_parts parts acc = Inr (w, b)"
proof (induction parts arbitrary: acc)
  case Nil
  then show ?case by (cases acc) simp
next
  case (Cons part parts)
  obtain w0 b0 where acc: "acc = (w0, b0)" by (cases acc)
  show ?case
    using Cons.IH part_squares_white [of "strip part"] part_squares_black [of "strip part"]
    by (simp add: acc Let_def)
qed

text \<open>
  Claim C10. The snapshot parser is total: for every input text \<^verbatim>\<open>_parse_positions\<close>
  returns a snapshot, never \<^verbatim>\<open>None\<close>. The only operation of its \<^verbatim>\<open>try\<close> block that
  can raise is the index 1 into \<^verbatim>\<open>part.split(":")\<close>, and it is read only for a token
  that starts with \<^verbatim>\<open>white:\<close> or \<^verbatim>\<open>black:\<close>. The branch
  \<^verbatim>\<open>if positions is None\<close> of \<^verbatim>\<open>process_move\<close> is therefore never taken.
\<close>

theorem parse_positions_total:
  "\<exists>positions. parse_positions txt = Some positions"
proof -
  obtain w b where "parse_parts (token_parts txt) ([], []) = Inr (w, b)"
    using parse_parts_returns by blast
  then show ?thesis by (simp add: parse_positions_def)
qed

subsection \<open>What the parser returns\<close>

lemma parse_parts_no_token:
  "list_all (\<lambda>part. \<not> startswith (strip part) ''white:'' \<and> \<not> startswith (strip part) ''black:'') parts
   \<Longrightarrow> parse_parts parts acc = Inr acc"
  by (induction parts arbitrary: acc) (auto simp: Let_def)

lemma card_valid_squares: "card valid_squares = 64"
  by code_simp

lemma white_not_black: "startswith part ''white:'' \<Longrightarrow> \<not> startswith part ''black:''"
  by (auto simp: startswith_def)

lemma parse_parts_last:
  "\<exists>w b. parse_parts parts (w0, b0) = Inr (w, b)
     \<and> (let ws = filter (\<lambda>part. startswith part ''white:'') (map strip parts)
        in if ws = [] then w = w0 else part_squares (last ws) = Inr w)
     \<and> (let bs = filter (\<lambda>part. startswith part ''black:'') (map strip parts)
        in if bs = [] then b = b0 else part_squares (last bs) = Inr b)"
proof (induction parts arbitrary: w0 b0)
  case Nil
  then show ?case by simp
next
  case (Cons part parts)
  show ?case
  proof (cases "startswith (strip part) ''white:''")
    case True
    then have nb: "\<not> startswith (strip part) ''black:''" by (rule white_not_black)
    from True obtain sqs where sqs: "part_squares (strip part) = Inr sqs"
      using part_squares_white by blast
    from Cons.IH [of sqs b0] True nb sqs show ?thesis
      by (auto simp: Let_def split: if_splits)
  next
    case False
    note nw = this
    show ?thesis
    proof (cases "startswith (strip part) ''black:''")
      case True
      then obtain sqs where sqs: "part_squares (strip part) = Inr sqs"
        using part_squares_black by blast
      from Cons.IH [of w0 sqs] True nw sqs show ?thesis
        by (auto simp: Let_def split: if_splits)
    next
      case False
      with Cons.IH [of w0 b0] nw show ?thesis by (auto simp: Let_def)
    qed
  qed
qed

lemma square_name_inj:
  assumes "a < 64" "b < 64" "square_name a = square_name b"
  shows "a = b"
proof -
  have d1: "distinct ''abcdefgh''" and d2: "distinct ''12345678''" by simp_all
  from assms have e1: "''abcdefgh'' ! (a mod 8) = ''abcdefgh'' ! (b mod 8)"
    and e2: "''12345678'' ! (a div 8) = ''12345678'' ! (b div 8)"
    by (simp_all add: square_name_def)
  have "a mod 8 = b mod 8"
    using e1 d1 by (subst (asm) nth_eq_iff_index_eq) simp_all
  moreover have "a div 8 = b div 8"
    using e2 d2 assms(1,2) by (subst (asm) nth_eq_iff_index_eq) simp_all
  ultimately show ?thesis by (metis div_mult_mod_eq)
qed


text \<open>
  Claim C9. For every input text the parser returns a snapshot (no entry makes it fail):
  the white and the black list are the candidate squares \<open>w\<close> and \<open>b\<close> the loop
  ends with, filtered by membership in the 64 valid squares and then sorted; so both
  lists hold valid squares only and are sorted; and a text in which no token starts with
  \<^verbatim>\<open>white:\<close> or \<^verbatim>\<open>black:\<close> gives the snapshot with both lists empty.
\<close>

theorem parse_positions_valid_sorted:
  "\<exists>positions w b.
     parse_parts (token_parts txt) ([], []) = Inr (w, b)
     \<and> parse_positions txt = Some positions
     \<and> white positions = sort (filter (\<lambda>sq. sq \<in> valid_squares) w)
     \<and> black positions = sort (filter (\<lambda>sq. sq \<in> valid_squares) b)
     \<and> set (white positions) \<subseteq> valid_squares \<and> set (black positions) \<subseteq> valid_squares
     \<and> card valid_squares = 64
     \<and> sorted (white positions) \<and> sorted (black positions)
     \<and> (list_all (\<lambda>part. \<not> startswith (strip part) ''white:'' \<and> \<not> startswith (strip part) ''black:'')
           (token_parts txt)
         \<longrightarrow> positions = \<lparr>white = [], black = []\<rparr>)"
proof -
  obtain w b where wb: "parse_parts (token_parts txt) ([], []) = Inr (w, b)"
    using parse_parts_returns by blast
  let ?p = "\<lparr>white = sort (filter (\<lambda>sq. sq \<in> valid_squares) w),
             black = sort (filter (\<lambda>sq. sq \<in> valid_squares) b)\<rparr>"
  have p: "parse_positions txt = Some ?p"
    using wb by (simp add: parse_positions_def)
  have none: "list_all (\<lambda>part. \<not> startswith (strip part) ''white:'' \<and> \<not> startswith (strip part) ''black:'')
           (token_parts txt) \<longrightarrow> ?p = \<lparr>white = [], black = []\<rparr>"
  proof
    assume "list_all (\<lambda>part. \<not> startswith (strip part) ''white:'' \<and> \<not> startswith (strip part) ''black:'')
           (token_parts txt)"
    then have "parse_parts (token_parts txt) ([], []) = Inr ([], [])"
      by (rule parse_parts_no_token)
    with wb show "?p = \<lparr>white = [], black = []\<rparr>" by simp
  qed
  have sub: "set (white ?p) \<subseteq> valid_squares" "set (black ?p) \<subseteq> valid_squares" by auto
  have srt: "sorted (white ?p)" "sorted (black ?p)" by simp_all
  show ?thesis
    apply (rule exI [of _ ?p], rule exI [of _ w], rule exI [of _ b])
    using wb p none sub srt card_valid_squares by simp
qed

text \<open>The text \<^verbatim>\<open>e2e9\<close> has no recognisable token: the empty snapshot.\<close>

theorem parse_positions_valid_sorted_witness:
  "parse_positions ''e2e9'' = Some \<lparr>white = [], black = []\<rparr>"
proof -
  have h: "list_all (\<lambda>part. \<not> startswith (strip part) ''white:'' \<and> \<not> startswith (strip part) ''black:'')
           (token_parts ''e2e9'')"
    by code_simp
  from parse_positions_valid_sorted [of "''e2e9''"] h show ?thesis by auto
qed

text \<open>
  Claim C8, as the specification states it, says that several tokens of one colour
  contribute the union of their squares. The loop assigns the colour's list at each
  recognised token, so an earlier token of the same colour is overwritten:
  \<^verbatim>\<open>white:a1;white:a2\<close> gives the white list \<^verbatim>\<open>['a2']\<close>, without the valid square a1.
\<close>

theorem parse_positions_union_counterexample:
  "parse_positions ''white:a1;white:a2'' = Some \<lparr>white = [''a2''], black = []\<rparr>
   \<and> ''a1'' \<in> valid_squares \<and> ''a1'' \<notin> set [''a2'']"
  by code_simp

text \<open>
  Claim C8, amended. For every input text, each colour's result is given by the last
  token of that colour alone: when no token (stripped) starts with \<^verbatim>\<open>white:\<close> the
  white candidates are empty, otherwise they are the squares of the last such token
  (the text between its first and its second colon, cut at the commas, each piece
  stripped, the empty pieces left out); the same holds for \<^verbatim>\<open>black:\<close>. Every other
  token, and every earlier token of the same colour, has no effect on the result.
\<close>

theorem parse_positions_last_token:
  "\<exists>w b.
     parse_parts (token_parts txt) ([], []) = Inr (w, b)
     \<and> parse_positions txt =
         Some \<lparr>white = sort (filter (\<lambda>sq. sq \<in> valid_squares) w),
               black = sort (filter (\<lambda>sq. sq \<in> valid_squares) b)\<rparr>
     \<and> (let ws = filter (\<lambda>part. startswith part ''white:'') (map strip (token_parts txt))
        in if ws = [] then w = [] else part_squares (last ws) = Inr w)
     \<and> (let bs = filter (\<lambda>part. startswith part ''black:'') (map strip (token_parts txt))
        in if bs = [] then b = [] else part_squares (last bs) = Inr b)"
proof -
  from parse_parts_last [of "token_parts txt" "[]" "[]"]
  obtain w b where wb: "parse_parts (token_parts txt) ([], []) = Inr (w, b)"
    and l: "(let ws = filter (\<lambda>part. startswith part ''white:'') (map strip (token_parts txt))
        in if ws = [] then w = [] else part_squares (last ws) = Inr w)"
      "(let bs = filter (\<lambda>part. startswith part ''black:'') (map strip (token_parts txt))
        in if bs = [] then b = [] else part_squares (last bs) = Inr b)"
    by blast
  from wb have "parse_positions txt =
         Some \<lparr>white = sort (filter (\<lambda>sq. sq \<in> valid_squares) w),
               black = sort (filter (\<lambda>sq. sq \<in> valid_squares) b)\<rparr>"
    by (simp add: parse_positions_def)
  with wb l show ?thesis by blast
qed

text \<open>Two white tokens and a token of another shape: the last white token decides.\<close>

theorem parse_positions_last_token_witness:
  "parse_positions ''white:a1;junk;white:a2,z9'' = Some \<lparr>white = [''a2''], black = []\<rparr>"
proof -
  have ws: "filter (\<lambda>part. startswith part ''white:'') (map strip (token_parts ''white:a1;junk;white:a2,z9''))
            = [''white:a1'', ''white:a2,z9'']"
    by code_simp
  have bs: "filter (\<lambda>part. startswith part ''black:'') (map strip (token_parts ''white:a1;junk;white:a2,z9''))
            = []"
    by code_simp
  have ps: "part_squares ''white:a2,z9'' = Inr [''a2'', ''z9'']" by code_simp
  have f: "sort (filter (\<lambda>sq. sq \<in> valid_squares) [''a2'', ''z9'']) = [''a2'']" by code_simp
  have f0: "sort (filter (\<lambda>sq. sq \<in> valid_squares) ([] :: string list)) = []" by simp
  from parse_positions_last_token [of "''white:a1;junk;white:a2,z9''"]
  show ?thesis unfolding ws bs using ps f f0 by (auto simp: Let_def)
qed

subsection \<open>The two sets of a snapshot\<close>

text \<open>
  Claim C7, as the specification states it, covers the output of the parser. The parser
  checks each square against the 64 coordinates only, never one colour's list against
  the other's: \<^verbatim>\<open>white:e2;black:e2\<close> is parsed to a snapshot with e2 in both lists.
\<close>

theorem parse_positions_overlap_counterexample:
  "parse_positions ''white:e2;black:e2'' = Some \<lparr>white = [''e2''], black = [''e2'']\<rparr>
   \<and> set [''e2''] \<inter> set [''e2''] \<noteq> ({} :: string set)"
  by code_simp



text \<open>
  Claim C7, amended. Every snapshot derived from the board by \<^verbatim>\<open>_get_piece_snapshot\<close>
  (so every snapshot the session stores in \<^verbatim>\<open>last_position_snapshot\<close>) has no square
  in both its white and its black list: a square of the piece map has one piece, and
  distinct squares have distinct names.
\<close>

theorem get_piece_snapshot_disjoint:
  "set (white (get_piece_snapshot L s)) \<inter> set (black (get_piece_snapshot L s)) = {}"
proof -
  { fix x assume w: "x \<in> set (white (get_piece_snapshot L s))"
      and b: "x \<in> set (black (get_piece_snapshot L s))"
    from w obtain i where i: "i < 64" "piece_map L (board s) i = Some WHITE" "x = square_name i"
      by (auto simp: get_piece_snapshot_def Let_def)
    from b obtain j where j: "j < 64" "piece_map L (board s) j = Some BLACK" "x = square_name j"
      by (auto simp: get_piece_snapshot_def Let_def)
    from i j have "i = j" using square_name_inj by metis
    with i j have False by simp }
  then show ?thesis by blast
qed

subsection \<open>Texts of coordinate shape\<close>

text \<open>A text that \<^verbatim>\<open>_is_uci_move\<close> accepts has at most five characters once stripped, so
  none of its tokens can start with \<^verbatim>\<open>white:\<close> or \<^verbatim>\<open>black:\<close>: as a snapshot
  description it would be the empty snapshot. \<^verbatim>\<open>process_move\<close> never parses it, since
  it is handled as a move.\<close>

lemma length_strip: "length (strip s) \<le> length s"
proof -
  have "length (dropWhile isspace (rev (dropWhile isspace s))) \<le> length (rev (dropWhile isspace s))"
    by (rule length_dropWhile_le)
  also have "\<dots> = length (dropWhile isspace s)" by simp
  also have "\<dots> \<le> length s" by (rule length_dropWhile_le)
  finally show ?thesis by (simp add: strip_def)
qed

lemma startswith_length: "startswith s p \<Longrightarrow> length p \<le> length s"
proof -
  assume "startswith s p"
  then have "length (take (length p) s) = length p" by (simp add: startswith_def)
  then show ?thesis by simp
qed

lemma short_not_token:
  assumes "length part < 6"
  shows "\<not> startswith (strip part) ''white:'' \<and> \<not> startswith (strip part) ''black:''"
proof -
  have "length (strip part) < 6" using assms length_strip [of part] by simp
  then show ?thesis
    using startswith_length [of "strip part" "''white:''"] startswith_length [of "strip part" "''black:''"]
    by auto
qed

lemma split_on_short: "p \<in> set (split_on sep s) \<Longrightarrow> length p \<le> length s"
proof (induction s arbitrary: p)
  case Nil
  then show ?case by simp
next
  case (Cons c cs)
  obtain a rest where ar: "split_on sep cs = a # rest"
    using split_on_not_Nil [of sep cs] by (cases "split_on sep cs") auto
  have la: "length a \<le> length cs" using Cons.IH [of a] ar by simp
  have lr: "\<And>q. q \<in> set rest \<Longrightarrow> length q \<le> length cs" using Cons.IH ar by simp
  from Cons.prems ar have "p = [] \<or> p = a \<or> p = c # a \<or> p \<in> set rest"
    by (auto split: if_splits)
  then show ?case using la lr by (auto intro: le_SucI)
qed

lemma split_ws_from_short: "p \<in> set (split_ws_from s w) \<Longrightarrow> length p \<le> length s + length w"
proof (induction s w arbitrary: p rule: split_ws_from.induct)
  case (1 w)
  then show ?case by (auto split: if_splits)
next
  case (2 c cs w)
  then show ?case by (fastforce split: if_splits)
qed

lemma token_parts_short: "p \<in> set (token_parts t) \<Longrightarrow> length p \<le> length (lower (strip t))"
  using split_on_short [of p "CHR '';''" "lower (strip t)"]
    split_ws_from_short [of p "lower (strip t)" "[]"]
  by (auto simp: token_parts_def Let_def split_ws_def split: if_splits)

lemma is_uci_move_length: "is_uci_move t \<Longrightarrow> length (lower (strip t)) < 6"
  by (auto simp: is_uci_move_def Let_def split: if_splits)

lemma is_uci_move_parses_empty:
  assumes "is_uci_move t"
  shows "parse_positions t = Some \<lparr>white = [], black = []\<rparr>"
proof -
  have "list_all (\<lambda>part. \<not> startswith (strip part) ''white:'' \<and> \<not> startswith (strip part) ''black:'')
          (token_parts t)"
    unfolding list_all_iff
  proof
    fix p assume "p \<in> set (token_parts t)"
    then have "length p < 6"
      using token_parts_short [of p t] is_uci_move_length [OF assms] by simp
    then show "\<not> startswith (strip p) ''white:'' \<and> \<not> startswith (strip p) ''black:''"
      by (rule short_not_token)
  qed
  then have "parse_parts (token_parts t) ([], []) = Inr ([], [])"
    by (rule parse_parts_no_token)
  then show ?thesis by (simp add: parse_positions_def)
qed

subsection \<open>The inactive session\<close>

lemma move_requests_inactive:
  "\<not> game_active s \<Longrightarrow> move_requests L s msgs = (replicate (length msgs) (Inr ''Game Over''), s)"
  by (induction msgs) (simp_all add: process_move_def)

text \<open>
  Claim C6. When the activity flag is false, \<^verbatim>\<open>process_move\<close> returns \<^verbatim>\<open>Game Over\<close>
  for every input and changes nothing; and so does every later request of the
  \<^verbatim>\<open>/move\<close> route, however many follow: only \<^verbatim>\<open>start_game\<close> sets the flag again.
\<close>

theorem process_move_inactive:
  assumes "\<not> game_active s"
  shows "process_move L s incoming = (Inr ''Game Over'', s)
         \<and> move_requests L s msgs = (replicate (length msgs) (Inr ''Game Over''), s)"
  using assms move_requests_inactive [of s L msgs] by (simp add: process_move_def)

text \<open>The session after the mate \<^verbatim>\<open>g5g7\<close>: a move and then a snapshot are both answered
  with \<^verbatim>\<open>Game Over\<close>.\<close>

theorem process_move_inactive_witness:
  "process_move ending_lib (ending_brain\<lparr>board := Mate, game_active := False\<rparr>) ''g5g6''
     = (Inr ''Game Over'', ending_brain\<lparr>board := Mate, game_active := False\<rparr>)
   \<and> move_requests ending_lib (ending_brain\<lparr>board := Mate, game_active := False\<rparr>)
        [''h8h7'', ''white:f7,g7;black:h8'']
     = ([Inr ''Game Over'', Inr ''Game Over''], ending_brain\<lparr>board := Mate, game_active := False\<rparr>)"
proof -
  have h: "\<not> game_active (ending_brain\<lparr>board := Mate, game_active := False\<rparr>)" by simp
  from process_move_inactive [OF h, of ending_lib "''g5g6''" "[''h8h7'', ''white:f7,g7;black:h8'']"]
  show ?thesis by simp
qed

subsection \<open>Coordinate moves\<close>







subsection \<open>Snapshot descriptions\<close>

text \<open>
  Claim C4. For every active session, a snapshot description (a text that is not of
  coordinate shape) that parses to the snapshot of the current board is answered with
  the empty text, and the board, the activity flag and the stored snapshot are
  unchanged. This holds in particular for the description of the board as it stands
  after an applied move.
\<close>

theorem process_move_same_snapshot:
  assumes "game_active s" and "\<not> is_uci_move incoming"
    and "parse_positions incoming = Some (get_piece_snapshot L s)"
  shows "process_move L s incoming = (Inr '''', s)"
  using assms by (simp add: process_move_def)

text \<open>The description of the position \<open>Before\<close>, sent to the session in that position;
  and, after the move \<^verbatim>\<open>g5g4\<close> and the reply \<^verbatim>\<open>h8h7\<close>, the description of the board
  as it then stands.\<close>

theorem process_move_same_snapshot_witness:
  "process_move ending_lib ending_brain ''white:f7,g5;black:h8'' = (Inr '''', ending_brain)
   \<and> process_move ending_lib (snd (process_move ending_lib ending_brain ''g5g4'')) ''white:f7,g4 black:h7''
       = (Inr '''', snd (process_move ending_lib ending_brain ''g5g4''))"
proof -
  have a: "game_active ending_brain" by (simp add: ending_brain_def)
  have u: "\<not> is_uci_move ''white:f7,g5;black:h8''" by code_simp
  have p: "parse_positions ''white:f7,g5;black:h8'' = Some (get_piece_snapshot ending_lib ending_brain)"
    by code_simp
  have a': "game_active (snd (process_move ending_lib ending_brain ''g5g4''))" by code_simp
  have u': "\<not> is_uci_move ''white:f7,g4 black:h7''" by code_simp
  have p': "parse_positions ''white:f7,g4 black:h7''
              = Some (get_piece_snapshot ending_lib (snd (process_move ending_lib ending_brain ''g5g4'')))"
    by code_simp
  from process_move_same_snapshot [OF a u p] process_move_same_snapshot [OF a' u' p']
  show ?thesis by (rule conjI)
qed



subsection \<open>Castling in the move inference\<close>

text \<open>
  Claim C3. For every pair of snapshots: when the white squares removed are e1 and h1
  and the white squares added are g1 and f1, the inferred move is \<^verbatim>\<open>e1g1\<close>, and with
  e1, a1 removed and c1, d1 added it is \<^verbatim>\<open>e1c1\<close>, whatever the black lists are; when
  the white squares are unchanged, e8, h8 removed and g8, f8 added among the black
  squares give \<^verbatim>\<open>e8g8\<close>, and e8, a8 removed and c8, d8 added give \<^verbatim>\<open>e8c8\<close>. The
  castling patterns are tested first, so no pattern of a quiet move or of a capture
  can replace these results.
\<close>

theorem deduce_castling:
  "(set (white current_pos) - set (white new_pos) = {''e1'', ''h1''}
      \<and> set (white new_pos) - set (white current_pos) = {''g1'', ''f1''}
    \<longrightarrow> deduce_move_from_snapshot new_pos current_pos = Some ''e1g1'')
   \<and> (set (white current_pos) - set (white new_pos) = {''e1'', ''a1''}
      \<and> set (white new_pos) - set (white current_pos) = {''c1'', ''d1''}
    \<longrightarrow> deduce_move_from_snapshot new_pos current_pos = Some ''e1c1'')
   \<and> (set (black current_pos) - set (black new_pos) = {''e8'', ''h8''}
      \<and> set (black new_pos) - set (black current_pos) = {''g8'', ''f8''}
      \<and> set (white new_pos) = set (white current_pos)
    \<longrightarrow> deduce_move_from_snapshot new_pos current_pos = Some ''e8g8'')
   \<and> (set (black current_pos) - set (black new_pos) = {''e8'', ''a8''}
      \<and> set (black new_pos) - set (black current_pos) = {''c8'', ''d8''}
      \<and> set (white new_pos) = set (white current_pos)
    \<longrightarrow> deduce_move_from_snapshot new_pos current_pos = Some ''e8c8'')"
  by (auto simp: deduce_move_from_snapshot_def Let_def doubleton_eq_iff)

text \<open>The four patterns; in the first, black has moved e7 to e5 in the same delta and
  the castling move is still the result.\<close>

theorem deduce_castling_witness:
  "deduce_move_from_snapshot
      \<lparr>white = [''a2'', ''f1'', ''g1''], black = [''e5'', ''e8'']\<rparr>
      \<lparr>white = [''a2'', ''e1'', ''h1''], black = [''e7'', ''e8'']\<rparr> = Some ''e1g1''
   \<and> deduce_move_from_snapshot
      \<lparr>white = [''c1'', ''d1'', ''h1''], black = [''e8'']\<rparr>
      \<lparr>white = [''a1'', ''e1'', ''h1''], black = [''e8'']\<rparr> = Some ''e1c1''
   \<and> deduce_move_from_snapshot
      \<lparr>white = [''e1''], black = [''a8'', ''f8'', ''g8'']\<rparr>
      \<lparr>white = [''e1''], black = [''a8'', ''e8'', ''h8'']\<rparr> = Some ''e8g8''
   \<and> deduce_move_from_snapshot
      \<lparr>white = [''e1''], black = [''c8'', ''d8'', ''h8'']\<rparr>
      \<lparr>white = [''e1''], black = [''a8'', ''e8'', ''h8'']\<rparr> = Some ''e8c8''"
proof -
  have h1: "set (white \<lparr>white = [''a2'', ''e1'', ''h1''], black = [''e7'', ''e8'']\<rparr>)
              - set (white \<lparr>white = [''a2'', ''f1'', ''g1''], black = [''e5'', ''e8'']\<rparr>) = {''e1'', ''h1''}
            \<and> set (white \<lparr>white = [''a2'', ''f1'', ''g1''], black = [''e5'', ''e8'']\<rparr>)
              - set (white \<lparr>white = [''a2'', ''e1'', ''h1''], black = [''e7'', ''e8'']\<rparr>) = {''g1'', ''f1''}"
    by code_simp
  have h2: "set (white \<lparr>white = [''a1'', ''e1'', ''h1''], black = [''e8'']\<rparr>)
              - set (white \<lparr>white = [''c1'', ''d1'', ''h1''], black = [''e8'']\<rparr>) = {''e1'', ''a1''}
            \<and> set (white \<lparr>white = [''c1'', ''d1'', ''h1''], black = [''e8'']\<rparr>)
              - set (white \<lparr>white = [''a1'', ''e1'', ''h1''], black = [''e8'']\<rparr>) = {''c1'', ''d1''}"
    by code_simp
  have h3: "set (black \<lparr>white = [''e1''], black = [''a8'', ''e8'', ''h8'']\<rparr>)
              - set (black \<lparr>white = [''e1''], black = [''a8'', ''f8'', ''g8'']\<rparr>) = {''e8'', ''h8''}
            \<and> set (black \<lparr>white = [''e1''], black = [''a8'', ''f8'', ''g8'']\<rparr>)
              - set (black \<lparr>white = [''e1''], black = [''a8'', ''e8'', ''h8'']\<rparr>) = {''g8'', ''f8''}
            \<and> set (white \<lparr>white = [''e1''], black = [''a8'', ''f8'', ''g8'']\<rparr>)
              = set (white \<lparr>white = [''e1''], black = [''a8'', ''e8'', ''h8'']\<rparr>)"
    by code_simp
  have h4: "set (black \<lparr>white = [''e1''], black = [''a8'', ''e8'', ''h8'']\<rparr>)
              - set (black \<lparr>white = [''e1''], black = [''c8'', ''d8'', ''h8'']\<rparr>) = {''e8'', ''a8''}
            \<and> set (black \<lparr>white = [''e1''], black = [''c8'', ''d8'', ''h8'']\<rparr>)
              - set (black \<lparr>white = [''e1''], black = [''a8'', ''e8'', ''h8'']\<rparr>) = {''c8'', ''d8''}
            \<and> set (white \<lparr>white = [''e1''], black = [''c8'', ''d8'', ''h8'']\<rparr>)
              = set (white \<lparr>white = [''e1''], black = [''a8'', ''e8'', ''h8'']\<rparr>)"
    by code_simp
  note c = deduce_castling
  from c [of "\<lparr>white = [''a2'', ''e1'', ''h1''], black = [''e7'', ''e8'']\<rparr>"
             "\<lparr>white = [''a2'', ''f1'', ''g1''], black = [''e5'', ''e8'']\<rparr>"] h1
  have r1: "deduce_move_from_snapshot
      \<lparr>white = [''a2'', ''f1'', ''g1''], black = [''e5'', ''e8'']\<rparr>
      \<lparr>white = [''a2'', ''e1'', ''h1''], black = [''e7'', ''e8'']\<rparr> = Some ''e1g1''" by blast
  from c [of "\<lparr>white = [''a1'', ''e1'', ''h1''], black = [''e8'']\<rparr>"
             "\<lparr>white = [''c1'', ''d1'', ''h1''], black = [''e8'']\<rparr>"] h2
  have r2: "deduce_move_from_snapshot
      \<lparr>white = [''c1'', ''d1'', ''h1''], black = [''e8'']\<rparr>
      \<lparr>white = [''a1'', ''e1'', ''h1''], black = [''e8'']\<rparr> = Some ''e1c1''" by blast
  from c [of "\<lparr>white = [''e1''], black = [''a8'', ''e8'', ''h8'']\<rparr>"
             "\<lparr>white = [''e1''], black = [''a8'', ''f8'', ''g8'']\<rparr>"] h3
  have r3: "deduce_move_from_snapshot
      \<lparr>white = [''e1''], black = [''a8'', ''f8'', ''g8'']\<rparr>
      \<lparr>white = [''e1''], black = [''a8'', ''e8'', ''h8'']\<rparr> = Some ''e8g8''" by blast
  from c [of "\<lparr>white = [''e1''], black = [''a8'', ''e8'', ''h8'']\<rparr>"
             "\<lparr>white = [''e1''], black = [''c8'', ''d8'', ''h8'']\<rparr>"] h4
  have r4: "deduce_move_from_snapshot
      \<lparr>white = [''e1''], black = [''c8'', ''d8'', ''h8'']\<rparr>
      \<lparr>white = [''e1''], black = [''a8'', ''e8'', ''h8'']\<rparr> = Some ''e8c8''" by blast
  from r1 r2 r3 r4 show ?thesis by blast
qed

end
